theory Spec2Isabelle
  imports Main
begin

section \<open>The message service of the agent runner\<close>

text \<open>
  This theory embeds the class \<open>MessageService\<close> (src/unnamed/part_000): a boolean flag
  \<open>isRunning\<close>, a rendering callback \<open>renderMessage\<close>, the gate \<open>sendMessage\<close> and the
  entry points that build a message and pass it through the gate.

  Strings are byte strings: the ASCII text of the source's literals, with the emoji that
  open the status sentences written as their UTF-8 bytes, exactly as the source file
  holds them.
\<close>

subsection \<open>JavaScript values and the operations the service applies to them\<close>

text \<open>
  \<open>sendErrorMessage\<close> takes \<open>e: unknown\<close>, so its argument is modelled as a JavaScript
  value. Numbers are integers: the only operation the service applies to a number is
  the strict comparison with the literals 429 and 404. An object is the list of its own
  data properties. Accessor properties, proxies, functions and symbols are left out:
  the values are plain data, on which a property read runs no code.
\<close>

datatype js_value =
    JSUndefined
  | JSNull
  | JSBoolean bool
  | JSNumber int
  | JSString string
  | JSObject "(string \<times> js_value) list"

datatype js_error = TypeError

text \<open>
  The property read \<open>v.p\<close>. It raises a TypeError on \<open>undefined\<close> and \<open>null\<close>; on an
  object it yields the property, or \<open>undefined\<close> when the object has none of that name;
  on a boolean, number or string it yields \<open>undefined\<close> for the names read here
  (\<open>response\<close>, \<open>status\<close>, \<open>isAxiosError\<close>), none of which is a member of a primitive's
  prototype.
\<close>

fun js_get :: "js_value \<Rightarrow> string \<Rightarrow> js_error + js_value" where
  "js_get JSUndefined p = Inl TypeError"
| "js_get JSNull p = Inl TypeError"
| "js_get (JSObject fields) p =
     Inr (case map_of fields p of None \<Rightarrow> JSUndefined | Some v \<Rightarrow> v)"
| "js_get v p = Inr JSUndefined"

text \<open>The optional chain \<open>v?.p\<close>: \<open>undefined\<close> when \<open>v\<close> is \<open>undefined\<close> or \<open>null\<close>.\<close>

fun js_get_optional :: "js_value \<Rightarrow> string \<Rightarrow> js_error + js_value" where
  "js_get_optional JSUndefined p = Inr JSUndefined"
| "js_get_optional JSNull p = Inr JSUndefined"
| "js_get_optional v p = js_get v p"

fun typeof :: "js_value \<Rightarrow> string" where
  "typeof JSUndefined = ''undefined''"
| "typeof JSNull = ''object''"
| "typeof (JSBoolean b) = ''boolean''"
| "typeof (JSNumber n) = ''number''"
| "typeof (JSString s) = ''string''"
| "typeof (JSObject fields) = ''object''"

text \<open>
  \<open>axios.isAxiosError\<close> of the axios library: the payload is an object (not \<open>null\<close>,
  of type \<open>object\<close>) whose property \<open>isAxiosError\<close> is strictly equal to \<open>true\<close>.
\<close>

definition isObject :: "js_value \<Rightarrow> bool" where
  "isObject thing \<longleftrightarrow> thing \<noteq> JSNull \<and> typeof thing = ''object''"

definition isAxiosError :: "js_value \<Rightarrow> bool" where
  "isAxiosError payload \<longleftrightarrow>
     isObject payload \<and> js_get payload ''isAxiosError'' = Inr (JSBoolean True)"

subsection \<open>Messages and the analysis of a planned action\<close>

text \<open>
  Modelled from the spec: the declarations of \<open>../../types/agentTypes\<close> (\<open>Message\<close> and
  the three \<open>MESSAGE_TYPE\<close> constants) are not among the source files. The spec gives a
  notification a kind drawn from the closed set Goal, SystemStatus, Thinking and a
  free-form text value.
\<close>

datatype MessageType = MESSAGE_TYPE_GOAL | MESSAGE_TYPE_SYSTEM | MESSAGE_TYPE_THINKING

record Message =
  type :: MessageType
  "value" :: string

text \<open>
  Modelled from the spec: the type \<open>Analysis\<close> of \<open>./analysis\<close> is not among the source
  files. The spec gives a planned action an action tag, possibly absent or unknown, and
  an optional string argument; \<open>None\<close> is the absent property (\<open>undefined\<close>).
\<close>

record Analysis =
  action :: "string option"
  arg :: "string option"

text \<open>
  The loose comparison \<open>x == "lit"\<close> of a string or \<open>undefined\<close> with a string literal:
  \<open>undefined\<close> equals no string, two strings are compared by content.
\<close>

definition js_loose_eq :: "string option \<Rightarrow> string \<Rightarrow> bool" where
  "js_loose_eq x lit \<longleftrightarrow> x = Some lit"

text \<open>
  The substitution \<open>${x}\<close> of a template literal for a string or \<open>undefined\<close>: the
  string itself, and the text \<open>undefined\<close> for \<open>undefined\<close>.
\<close>

fun js_template :: "string option \<Rightarrow> string" where
  "js_template None = ''undefined''"
| "js_template (Some s) = s"

subsection \<open>The service\<close>

text \<open>
  The rendering callback acts on the world outside the service, of type \<open>'w\<close>. Every
  method takes the service and the world and returns both; the text resolver
  \<open>translate\<close> of \<open>../../utils/translations\<close> is a parameter of the methods that call it.
  The callback and the resolver are taken to return normally and not to call back into
  the service.
\<close>

record 'w MessageService =
  isRunning :: bool
  renderMessage :: "Message \<Rightarrow> 'w \<Rightarrow> 'w"

definition constructor :: "(Message \<Rightarrow> 'w \<Rightarrow> 'w) \<Rightarrow> 'w MessageService" where
  "constructor render = \<lparr>isRunning = False, renderMessage = render\<rparr>"

definition setIsRunning :: "'w MessageService \<Rightarrow> bool \<Rightarrow> 'w MessageService" where
  "setIsRunning this running = this\<lparr>isRunning := running\<rparr>"

definition sendMessage ::
  "'w MessageService \<Rightarrow> Message \<Rightarrow> 'w \<Rightarrow> 'w MessageService \<times> 'w" where
  "sendMessage this message w =
     (if isRunning this then (this, renderMessage this message w) else (this, w))"

definition sendGoalMessage ::
  "'w MessageService \<Rightarrow> string \<Rightarrow> 'w \<Rightarrow> 'w MessageService \<times> 'w" where
  "sendGoalMessage this goal w =
     sendMessage this \<lparr>type = MESSAGE_TYPE_GOAL, value = goal\<rparr> w"

definition sendLoopMessage ::
  "(string \<Rightarrow> string \<Rightarrow> string) \<Rightarrow> 'w MessageService \<Rightarrow> 'w \<Rightarrow> 'w MessageService \<times> 'w" where
  "sendLoopMessage translate this w =
     sendMessage this
       \<lparr>type = MESSAGE_TYPE_SYSTEM, value = translate ''DEMO_LOOPS_REACHED'' ''errors''\<rparr> w"

definition sendManualShutdownMessage ::
  "(string \<Rightarrow> string \<Rightarrow> string) \<Rightarrow> 'w MessageService \<Rightarrow> 'w \<Rightarrow> 'w MessageService \<times> 'w" where
  "sendManualShutdownMessage translate this w =
     sendMessage this
       \<lparr>type = MESSAGE_TYPE_SYSTEM,
        value = translate ''AGENT_MANUALLY_SHUT_DOWN'' ''errors''\<rparr> w"

definition sendCompletedMessage ::
  "(string \<Rightarrow> string \<Rightarrow> string) \<Rightarrow> 'w MessageService \<Rightarrow> 'w \<Rightarrow> 'w MessageService \<times> 'w" where
  "sendCompletedMessage translate this w =
     sendMessage this
       \<lparr>type = MESSAGE_TYPE_SYSTEM, value = translate ''ALL_TASKS_COMPLETETD'' ''errors''\<rparr> w"

text \<open>
  The local variable \<open>message\<close> of \<open>sendAnalysisMessage\<close> after its four independent
  \<open>if\<close> statements, each of which may overwrite what the earlier ones assigned.
\<close>

definition sendAnalysisMessage_text :: "Analysis \<Rightarrow> string" where
  "sendAnalysisMessage_text analysis =
     (let message = [CHR 0xE2, CHR 0x8F, CHR 0xB0] @ '' Generating response...'';
          message =
            (if js_loose_eq (action analysis) ''search''
             then [CHR 0xF0, CHR 0x9F, CHR 0x94, CHR 0x8D] @ '' Searching the web for ''
                    @ [CHR 0x22] @ js_template (arg analysis) @ [CHR 0x22] @ ''...''
             else message);
          message =
            (if js_loose_eq (action analysis) ''wikipedia''
             then [CHR 0xF0, CHR 0x9F, CHR 0x8C, CHR 0x90] @ '' Searching Wikipedia for ''
                    @ [CHR 0x22] @ js_template (arg analysis) @ [CHR 0x22] @ ''...''
             else message);
          message =
            (if js_loose_eq (action analysis) ''image''
             then [CHR 0xF0, CHR 0x9F, CHR 0x8E, CHR 0xA8]
                    @ '' Generating an image with prompt: ''
                    @ [CHR 0x22] @ js_template (arg analysis) @ [CHR 0x22] @ ''...''
             else message);
          message =
            (if js_loose_eq (action analysis) ''code''
             then [CHR 0xF0, CHR 0x9F, CHR 0x92, CHR 0xBB] @ '' Writing code...''
             else message)
      in message)"

definition sendAnalysisMessage ::
  "'w MessageService \<Rightarrow> Analysis \<Rightarrow> 'w \<Rightarrow> 'w MessageService \<times> 'w" where
  "sendAnalysisMessage this analysis w =
     sendMessage this
       \<lparr>type = MESSAGE_TYPE_SYSTEM, value = sendAnalysisMessage_text analysis\<rparr> w"

definition sendThinkingMessage ::
  "'w MessageService \<Rightarrow> 'w \<Rightarrow> 'w MessageService \<times> 'w" where
  "sendThinkingMessage this w =
     sendMessage this \<lparr>type = MESSAGE_TYPE_THINKING, value = []\<rparr> w"

text \<open>
  The value of \<open>e.response?.status\<close>: the read of \<open>response\<close> on \<open>e\<close>, then the optional
  read of \<open>status\<close> on the result.
\<close>

definition response_status :: "js_value \<Rightarrow> js_error + js_value" where
  "response_status e =
     (case js_get e ''response'' of
        Inl err \<Rightarrow> Inl err
      | Inr response \<Rightarrow> js_get_optional response ''status'')"

text \<open>
  The local variable \<open>message\<close> of \<open>sendErrorMessage\<close> when it reaches the call of
  \<open>translate\<close>, or the error raised on the way. This is the step the spec calls
  \<open>classify\<close>. In the branch of an axios error the two \<open>if\<close> statements run one after
  the other, and the \<open>else\<close> belongs to the second.
\<close>

definition classify :: "js_value \<Rightarrow> js_error + string" where
  "classify e =
     (let message = ''ERROR_RETRIEVE_INITIAL_TASKS'' in
      if isAxiosError e then
        (case response_status e of
           Inl err \<Rightarrow> Inl err
         | Inr status1 \<Rightarrow>
             (let message =
                    (if status1 = JSNumber 429 then ''ERROR_API_KEY_QUOTA'' else message)
              in case response_status e of
                   Inl err \<Rightarrow> Inl err
                 | Inr status2 \<Rightarrow>
                     (if status2 = JSNumber 404 then Inr ''ERROR_OPENAI_API_KEY_NO_GPT4''
                      else Inr ''ERROR_ACCESSING_OPENAI_API_KEY'')))
      else if typeof e = ''string'' then
        (case e of JSString s \<Rightarrow> Inr s | _ \<Rightarrow> Inr message)
      else Inr message)"

definition sendErrorMessage ::
  "(string \<Rightarrow> string \<Rightarrow> string) \<Rightarrow> 'w MessageService \<Rightarrow> js_value \<Rightarrow> 'w
     \<Rightarrow> js_error + 'w MessageService \<times> 'w" where
  "sendErrorMessage translate this e w =
     (case classify e of
        Inl err \<Rightarrow> Inl err
      | Inr message \<Rightarrow>
          Inr (sendMessage this
                 \<lparr>type = MESSAGE_TYPE_SYSTEM, value = translate message ''errors''\<rparr> w))"

subsection \<open>The argument of \<open>sendAnalysisMessage\<close> at run time\<close>






subsection \<open>A recording sink and sequences of calls\<close>

text \<open>
  What the sink receives is observed with a callback that appends each message to a
  log. The task loop outside the service is a sequence of calls of \<open>setIsRunning\<close> and
  \<open>sendMessage\<close>, performed one after the other on the same service.
\<close>

definition record_sink :: "Message \<Rightarrow> Message list \<Rightarrow> Message list" where
  "record_sink message log = log @ [message]"

datatype call = SetIsRunning bool | SendMessage Message

fun perform :: "'w MessageService \<Rightarrow> call \<Rightarrow> 'w \<Rightarrow> 'w MessageService \<times> 'w" where
  "perform this (SetIsRunning running) w = (setIsRunning this running, w)"
| "perform this (SendMessage message) w = sendMessage this message w"

fun run :: "'w MessageService \<Rightarrow> call list \<Rightarrow> 'w \<Rightarrow> 'w MessageService \<times> 'w" where
  "run this [] w = (this, w)"
| "run this (c # cs) w = (case perform this c w of (this', w') \<Rightarrow> run this' cs w')"

text \<open>
  The gating property in the words of the spec. \<open>state_after b cs\<close> is the run state
  once the calls \<open>cs\<close> have been made from the state \<open>b\<close>: the argument of the last
  \<open>setIsRunning\<close> among them, and \<open>b\<close> when there is none. \<open>admitted b cs\<close> lists, in call
  order, the messages of those \<open>sendMessage\<close> calls of \<open>cs\<close> at whose moment the state
  was true.
\<close>

definition state_after :: "bool \<Rightarrow> call list \<Rightarrow> bool" where
  "state_after b cs = last (b # [b'. SetIsRunning b' \<leftarrow> cs])"

definition admitted :: "bool \<Rightarrow> call list \<Rightarrow> Message list" where
  "admitted b cs =
     concat (map (\<lambda>i. case cs ! i of
                         SendMessage m \<Rightarrow> if state_after b (take i cs) then [m] else []
                       | SetIsRunning b' \<Rightarrow> [])
                 [0..<length cs])"

section \<open>Properties\<close>

subsection \<open>Sequences of calls\<close>

lemma run_snoc:
  "run this (cs @ [c]) w = (case run this cs w of (this', w') \<Rightarrow> perform this' c w')"
  by (induction cs arbitrary: this w) (auto split: prod.splits)

lemma state_after_snoc:
  "state_after b (cs @ [c]) =
     (case c of SetIsRunning b' \<Rightarrow> b' | SendMessage m \<Rightarrow> state_after b cs)"
  by (cases c) (simp_all add: state_after_def)

lemma admitted_snoc:
  "admitted b (cs @ [c]) =
     admitted b cs @ (case c of SendMessage m \<Rightarrow> if state_after b cs then [m] else []
                              | SetIsRunning b' \<Rightarrow> [])"
proof -
  define F where "F = (\<lambda>i. case (cs @ [c]) ! i of
                         SendMessage m \<Rightarrow> if state_after b (take i (cs @ [c])) then [m] else []
                       | SetIsRunning b' \<Rightarrow> [])"
  define G where "G = (\<lambda>i. case cs ! i of
                         SendMessage m \<Rightarrow> if state_after b (take i cs) then [m] else []
                       | SetIsRunning b' \<Rightarrow> [])"
  have "admitted b (cs @ [c]) = concat (map F [0..<length cs]) @ F (length cs)"
    unfolding admitted_def F_def by simp
  moreover have "map F [0..<length cs] = map G [0..<length cs]"
    by (rule map_cong) (simp_all add: F_def G_def nth_append split: call.splits)
  moreover have "F (length cs) =
      (case c of SendMessage m \<Rightarrow> if state_after b cs then [m] else [] | SetIsRunning b' \<Rightarrow> [])"
    by (simp add: F_def split: call.splits)
  moreover have "admitted b cs = concat (map G [0..<length cs])"
    unfolding admitted_def G_def by simp
  ultimately show ?thesis by simp
qed

lemma run_state:
  "fst (run this cs w) = this\<lparr>isRunning := state_after (isRunning this) cs\<rparr>"
proof (induction cs rule: rev_induct)
  case Nil
  show ?case by (simp add: state_after_def)
next
  case (snoc c cs)
  then show ?case
    by (cases c)
      (auto simp: run_snoc state_after_snoc setIsRunning_def sendMessage_def
            split: prod.splits)
qed

lemma run_world:
  "snd (run this cs w) = fold (renderMessage this) (admitted (isRunning this) cs) w"
proof (induction cs rule: rev_induct)
  case Nil
  show ?case by (simp add: admitted_def)
next
  case (snoc c cs)
  obtain t w' where r: "run this cs w = (t, w')" by (cases "run this cs w")
  from run_state [of this cs w] r
  have t: "t = this\<lparr>isRunning := state_after (isRunning this) cs\<rparr>" by simp
  from snoc r have w': "w' = fold (renderMessage this) (admitted (isRunning this) cs) w"
    by simp
  show ?case
    by (cases c) (simp_all add: run_snoc r admitted_snoc t w' sendMessage_def)
qed

lemma fold_record_sink: "fold record_sink ms log = log @ ms"
  by (induction ms arbitrary: log) (simp_all add: record_sink_def)

lemma state_after_eval [simp]:
  "state_after b [] = b"
  "state_after b (SetIsRunning b' # cs) = state_after b' cs"
  "state_after b (SendMessage m # cs) = state_after b cs"
  by (simp_all add: state_after_def)

lemma run_not_running:
  "\<not> isRunning this \<Longrightarrow> SetIsRunning True \<notin> set cs \<Longrightarrow> snd (run this cs w) = w"
proof (induction cs arbitrary: this)
  case Nil
  show ?case by simp
next
  case (Cons c cs)
  show ?case
  proof (cases c)
    case (SetIsRunning b)
    with Cons.prems have "\<not> b" by auto
    with Cons SetIsRunning show ?thesis by (simp add: setIsRunning_def)
  next
    case (SendMessage m)
    with Cons show ?thesis by (simp add: sendMessage_def)
  qed
qed

subsection \<open>The classification of a failure\<close>

lemma isAxiosError_object: "isAxiosError e \<Longrightarrow> \<exists>fields. e = JSObject fields"
  by (cases e) (simp_all add: isAxiosError_def isObject_def)

lemma response_status_total: "isAxiosError e \<Longrightarrow> \<exists>s. response_status e = Inr s"
proof -
  assume "isAxiosError e"
  then obtain fields where e: "e = JSObject fields" using isAxiosError_object by blast
  obtain r where r: "js_get e ''response'' = Inr r" by (simp add: e)
  have "\<exists>s. js_get_optional r ''status'' = Inr s" by (cases r) simp_all
  with r show ?thesis by (auto simp: response_status_def)
qed

lemma classify_axios:
  "isAxiosError e \<Longrightarrow>
   classify e = Inr (if response_status e = Inr (JSNumber 404)
                     then ''ERROR_OPENAI_API_KEY_NO_GPT4''
                     else ''ERROR_ACCESSING_OPENAI_API_KEY'')"
  using response_status_total [of e] by (auto simp: classify_def)

lemma classify_not_axios:
  "\<not> isAxiosError e \<Longrightarrow>
   classify e = Inr (case e of JSString s \<Rightarrow> s | _ \<Rightarrow> ''ERROR_RETRIEVE_INITIAL_TASKS'')"
  by (cases e) (simp_all add: classify_def)

lemma not_axios_string: "\<not> isAxiosError (JSString s)"
  by (simp add: isAxiosError_def isObject_def)

lemma classify_total: "\<exists>key. classify e = Inr key"
  by (cases "isAxiosError e") (simp_all add: classify_axios classify_not_axios)

lemma sendErrorMessage_classified:
  "classify e = Inr key \<Longrightarrow>
   sendErrorMessage translate this e w =
     Inr (sendMessage this
            \<lparr>type = MESSAGE_TYPE_SYSTEM, value = translate key ''errors''\<rparr> w)"
  by (simp add: sendErrorMessage_def)

text \<open>
  C1. The branch table of the classifier. An axios error whose \<open>e.response?.status\<close> is
  404 gets the key \<open>ERROR_OPENAI_API_KEY_NO_GPT4\<close>; one whose status is 429 gets
  \<open>ERROR_ACCESSING_OPENAI_API_KEY\<close>, not the quota key; one with any other status gets
  \<open>ERROR_ACCESSING_OPENAI_API_KEY\<close>; a string is its own key; every other value that
  is neither an axios error nor a string gets \<open>ERROR_RETRIEVE_INITIAL_TASKS\<close>.
\<close>

theorem classify_branch_table:
  "(isAxiosError e \<and> response_status e = Inr (JSNumber 404)
      \<longrightarrow> classify e = Inr ''ERROR_OPENAI_API_KEY_NO_GPT4'') \<and>
   (isAxiosError e \<and> response_status e = Inr (JSNumber 429)
      \<longrightarrow> classify e = Inr ''ERROR_ACCESSING_OPENAI_API_KEY'') \<and>
   (isAxiosError e \<and> response_status e \<noteq> Inr (JSNumber 404)
      \<longrightarrow> classify e = Inr ''ERROR_ACCESSING_OPENAI_API_KEY'') \<and>
   (e = JSString s \<longrightarrow> classify e = Inr s) \<and>
   (\<not> isAxiosError e \<and> typeof e \<noteq> ''string''
      \<longrightarrow> classify e = Inr ''ERROR_RETRIEVE_INITIAL_TASKS'')"
proof (intro conjI impI)
  assume "isAxiosError e \<and> response_status e = Inr (JSNumber 404)"
  then show "classify e = Inr ''ERROR_OPENAI_API_KEY_NO_GPT4''"
    by (simp add: classify_axios)
next
  assume "isAxiosError e \<and> response_status e = Inr (JSNumber 429)"
  then show "classify e = Inr ''ERROR_ACCESSING_OPENAI_API_KEY''"
    by (simp add: classify_axios)
next
  assume "isAxiosError e \<and> response_status e \<noteq> Inr (JSNumber 404)"
  then show "classify e = Inr ''ERROR_ACCESSING_OPENAI_API_KEY''"
    by (simp add: classify_axios)
next
  assume "e = JSString s"
  then show "classify e = Inr s"
    by (simp add: classify_not_axios not_axios_string)
next
  assume "\<not> isAxiosError e \<and> typeof e \<noteq> ''string''"
  then show "classify e = Inr ''ERROR_RETRIEVE_INITIAL_TASKS''"
    by (cases e) (simp_all add: classify_not_axios)
qed

theorem classify_branch_table_witness:
  "classify (JSObject [(''isAxiosError'', JSBoolean True),
                       (''response'', JSObject [(''status'', JSNumber 404)])])
     = Inr ''ERROR_OPENAI_API_KEY_NO_GPT4'' \<and>
   classify (JSObject [(''isAxiosError'', JSBoolean True),
                       (''response'', JSObject [(''status'', JSNumber 429)])])
     = Inr ''ERROR_ACCESSING_OPENAI_API_KEY'' \<and>
   classify (JSObject [(''isAxiosError'', JSBoolean True),
                       (''response'', JSObject [(''status'', JSNumber 500)])])
     = Inr ''ERROR_ACCESSING_OPENAI_API_KEY'' \<and>
   classify (JSString ''boom'') = Inr ''boom'' \<and>
   classify (JSObject [(''unrelated'', JSNumber 1)]) = Inr ''ERROR_RETRIEVE_INITIAL_TASKS''"
proof (intro conjI)
  let ?e = "\<lambda>n. JSObject [(''isAxiosError'', JSBoolean True),
                       (''response'', JSObject [(''status'', JSNumber n)])]"
  have ax: "isAxiosError (?e n)" for n
    by (simp add: isAxiosError_def isObject_def)
  have st: "response_status (?e n) = Inr (JSNumber n)" for n
    by (simp add: response_status_def)
  show "classify (?e 404) = Inr ''ERROR_OPENAI_API_KEY_NO_GPT4''"
    using classify_branch_table [of "?e 404"] ax [of 404] st [of 404] by simp
  show "classify (?e 429) = Inr ''ERROR_ACCESSING_OPENAI_API_KEY''"
    using classify_branch_table [of "?e 429"] ax [of 429] st [of 429] by simp
  show "classify (?e 500) = Inr ''ERROR_ACCESSING_OPENAI_API_KEY''"
    using classify_branch_table [of "?e 500"] ax [of 500] st [of 500] by simp
  show "classify (JSString ''boom'') = Inr ''boom''"
    using classify_branch_table [of "JSString ''boom''" "''boom''"] by simp
  show "classify (JSObject [(''unrelated'', JSNumber 1)])
          = Inr ''ERROR_RETRIEVE_INITIAL_TASKS''"
    using classify_branch_table [of "JSObject [(''unrelated'', JSNumber 1)]"]
    by (simp add: isAxiosError_def isObject_def)
qed

text \<open>
  C9. A value that \<open>isAxiosError\<close> recognises and whose \<open>e.response?.status\<close> is
  \<open>undefined\<close>, because it has no response or the response has no status, gets the key
  \<open>ERROR_ACCESSING_OPENAI_API_KEY\<close>, not the default \<open>ERROR_RETRIEVE_INITIAL_TASKS\<close>.
\<close>

theorem classify_axios_without_status:
  assumes "isAxiosError e" and "response_status e = Inr JSUndefined"
  shows "classify e = Inr ''ERROR_ACCESSING_OPENAI_API_KEY''"
  using assms by (simp add: classify_axios)

theorem classify_axios_without_status_witness:
  "classify (JSObject [(''isAxiosError'', JSBoolean True)])
     = Inr ''ERROR_ACCESSING_OPENAI_API_KEY'' \<and>
   classify (JSObject [(''isAxiosError'', JSBoolean True), (''response'', JSNull)])
     = Inr ''ERROR_ACCESSING_OPENAI_API_KEY'' \<and>
   classify (JSObject [(''isAxiosError'', JSBoolean True), (''response'', JSObject [])])
     = Inr ''ERROR_ACCESSING_OPENAI_API_KEY''"
proof (intro conjI)
  show "classify (JSObject [(''isAxiosError'', JSBoolean True)])
     = Inr ''ERROR_ACCESSING_OPENAI_API_KEY''"
    by (rule classify_axios_without_status)
       (simp_all add: isAxiosError_def isObject_def response_status_def)
  show "classify (JSObject [(''isAxiosError'', JSBoolean True), (''response'', JSNull)])
     = Inr ''ERROR_ACCESSING_OPENAI_API_KEY''"
    by (rule classify_axios_without_status)
       (simp_all add: isAxiosError_def isObject_def response_status_def)
  show "classify (JSObject [(''isAxiosError'', JSBoolean True), (''response'', JSObject [])])
     = Inr ''ERROR_ACCESSING_OPENAI_API_KEY''"
    by (rule classify_axios_without_status)
       (simp_all add: isAxiosError_def isObject_def response_status_def)
qed

text \<open>
  C7. The key depends on the failure value alone. For equal failure values the
  classification yields one and the same key, and \<open>sendErrorMessage\<close> passes the text
  resolved for that key to the gate whatever the service and the world are at either
  call.
\<close>

theorem classify_independent_of_service:
  assumes "e1 = e2"
  shows "\<exists>key. classify e1 = Inr key \<and> classify e2 = Inr key \<and>
           sendErrorMessage translate this1 e1 w1 =
             Inr (sendMessage this1
                    \<lparr>type = MESSAGE_TYPE_SYSTEM, value = translate key ''errors''\<rparr> w1) \<and>
           sendErrorMessage translate this2 e2 w2 =
             Inr (sendMessage this2
                    \<lparr>type = MESSAGE_TYPE_SYSTEM, value = translate key ''errors''\<rparr> w2)"
proof -
  obtain key where "classify e1 = Inr key" using classify_total by blast
  with assms show ?thesis by (simp add: sendErrorMessage_classified)
qed

theorem classify_independent_of_service_witness:
  "\<exists>key. classify (JSString ''boom'') = Inr key \<and>
     sendErrorMessage (\<lambda>key namespace. key)
       \<lparr>isRunning = True, renderMessage = record_sink\<rparr> (JSString ''boom'') []
       = Inr (\<lparr>isRunning = True, renderMessage = record_sink\<rparr>,
              [\<lparr>type = MESSAGE_TYPE_SYSTEM, value = key\<rparr>]) \<and>
     sendErrorMessage (\<lambda>key namespace. key)
       \<lparr>isRunning = True, renderMessage = record_sink\<rparr> (JSString ''boom'')
       [\<lparr>type = MESSAGE_TYPE_GOAL, value = ''earlier''\<rparr>]
       = Inr (\<lparr>isRunning = True, renderMessage = record_sink\<rparr>,
              [\<lparr>type = MESSAGE_TYPE_GOAL, value = ''earlier''\<rparr>,
               \<lparr>type = MESSAGE_TYPE_SYSTEM, value = key\<rparr>])"
  using classify_independent_of_service
    [of "JSString ''boom''" "JSString ''boom''" "\<lambda>key namespace. key"
        "\<lparr>isRunning = True, renderMessage = record_sink\<rparr>" "[]"
        "\<lparr>isRunning = True, renderMessage = record_sink\<rparr>"
        "[\<lparr>type = MESSAGE_TYPE_GOAL, value = ''earlier''\<rparr>]"]
  by (simp add: sendMessage_def record_sink_def)

text \<open>
  C4. On a running service, \<open>sendErrorMessage\<close> of an axios error with status 404 calls
  the sink once, with the system message whose value is what \<open>translate\<close> returns for
  the key \<open>ERROR_OPENAI_API_KEY_NO_GPT4\<close> in the namespace \<open>errors\<close>.
\<close>

theorem sendErrorMessage_status_404:
  assumes "isRunning this"
    and "isAxiosError e"
    and "response_status e = Inr (JSNumber 404)"
  shows "sendErrorMessage translate this e w =
           Inr (this, renderMessage this
                        \<lparr>type = MESSAGE_TYPE_SYSTEM,
                         value = translate ''ERROR_OPENAI_API_KEY_NO_GPT4'' ''errors''\<rparr> w)"
proof -
  from assms(2,3) have "classify e = Inr ''ERROR_OPENAI_API_KEY_NO_GPT4''"
    by (simp add: classify_axios)
  with assms(1) show ?thesis
    by (simp add: sendErrorMessage_classified sendMessage_def)
qed

theorem sendErrorMessage_status_404_witness:
  "sendErrorMessage (\<lambda>key namespace. namespace @ ''.'' @ key)
     \<lparr>isRunning = True, renderMessage = record_sink\<rparr>
     (JSObject [(''isAxiosError'', JSBoolean True),
                (''response'', JSObject [(''status'', JSNumber 404)])]) []
   = Inr (\<lparr>isRunning = True, renderMessage = record_sink\<rparr>,
          [\<lparr>type = MESSAGE_TYPE_SYSTEM, value = ''errors.ERROR_OPENAI_API_KEY_NO_GPT4''\<rparr>])"
proof -
  let ?e = "JSObject [(''isAxiosError'', JSBoolean True),
                      (''response'', JSObject [(''status'', JSNumber 404)])]"
  have "isRunning \<lparr>isRunning = True, renderMessage = record_sink\<rparr>" by simp
  moreover have "isAxiosError ?e" by (simp add: isAxiosError_def isObject_def)
  moreover have "response_status ?e = Inr (JSNumber 404)" by (simp add: response_status_def)
  ultimately show ?thesis
    using sendErrorMessage_status_404
      [of "\<lparr>isRunning = True, renderMessage = record_sink\<rparr>" ?e
          "\<lambda>key namespace. namespace @ ''.'' @ key" "[]"]
    by (simp add: record_sink_def)
qed

subsection \<open>The gate\<close>

text \<open>
  C2. For every sequence of \<open>sendMessage\<close> and \<open>setIsRunning\<close> calls, from any service,
  the sink is applied to exactly the messages sent while \<open>isRunning\<close> was true, in call
  order, and to nothing else; with the recording sink the log grows by exactly those
  messages.
\<close>

theorem sink_receives_admitted:
  "snd (run this cs w) = fold (renderMessage this) (admitted (isRunning this) cs) w \<and>
   snd (run (this\<lparr>renderMessage := record_sink\<rparr>) cs log)
     = log @ admitted (isRunning this) cs"
  using run_world [of "this\<lparr>renderMessage := record_sink\<rparr>" cs log]
  by (simp add: run_world fold_record_sink)

theorem sink_receives_admitted_witness:
  "snd (run \<lparr>isRunning = False, renderMessage = record_sink\<rparr>
          [SendMessage \<lparr>type = MESSAGE_TYPE_GOAL, value = ''a''\<rparr>,
           SetIsRunning True,
           SendMessage \<lparr>type = MESSAGE_TYPE_SYSTEM, value = ''b''\<rparr>,
           SetIsRunning False,
           SendMessage \<lparr>type = MESSAGE_TYPE_THINKING, value = []\<rparr>,
           SetIsRunning True,
           SendMessage \<lparr>type = MESSAGE_TYPE_SYSTEM, value = ''c''\<rparr>] [])
     = [\<lparr>type = MESSAGE_TYPE_SYSTEM, value = ''b''\<rparr>,
        \<lparr>type = MESSAGE_TYPE_SYSTEM, value = ''c''\<rparr>]"
proof -
  let ?cs = "[SendMessage \<lparr>type = MESSAGE_TYPE_GOAL, value = ''a''\<rparr>,
           SetIsRunning True,
           SendMessage \<lparr>type = MESSAGE_TYPE_SYSTEM, value = ''b''\<rparr>,
           SetIsRunning False,
           SendMessage \<lparr>type = MESSAGE_TYPE_THINKING, value = []\<rparr>,
           SetIsRunning True,
           SendMessage \<lparr>type = MESSAGE_TYPE_SYSTEM, value = ''c''\<rparr>]"
  have "admitted False ?cs
     = [\<lparr>type = MESSAGE_TYPE_SYSTEM, value = ''b''\<rparr>,
        \<lparr>type = MESSAGE_TYPE_SYSTEM, value = ''c''\<rparr>]"
    by (simp add: admitted_def upt_rec)
  with sink_receives_admitted
         [of "\<lparr>isRunning = False, renderMessage = record_sink\<rparr>" ?cs "[]" "[]"]
  show ?thesis by (simp add: record_sink_def del: run.simps)
qed

text \<open>
  C5. The constructor leaves \<open>isRunning\<close> false. On the service it returns, every entry
  point, \<open>sendThinkingMessage\<close> among them, leaves the world as it was, and so does any
  sequence of calls in which \<open>setIsRunning(true)\<close> does not occur.
\<close>

theorem fresh_service_delivers_nothing:
  "isRunning (constructor render) = False \<and>
   sendThinkingMessage (constructor render) w = (constructor render, w) \<and>
   sendMessage (constructor render) message w = (constructor render, w) \<and>
   sendGoalMessage (constructor render) goal w = (constructor render, w) \<and>
   sendLoopMessage translate (constructor render) w = (constructor render, w) \<and>
   sendManualShutdownMessage translate (constructor render) w = (constructor render, w) \<and>
   sendCompletedMessage translate (constructor render) w = (constructor render, w) \<and>
   sendAnalysisMessage (constructor render) analysis w = (constructor render, w) \<and>
   sendErrorMessage translate (constructor render) e w = Inr (constructor render, w) \<and>
   (SetIsRunning True \<notin> set cs \<longrightarrow> snd (run (constructor render) cs w) = w)"
proof -
  have off: "\<not> isRunning (constructor render)" by (simp add: constructor_def)
  then have gate: "sendMessage (constructor render) m w = (constructor render, w)" for m
    by (simp add: sendMessage_def)
  obtain key where "classify e = Inr key" using classify_total by blast
  then have "sendErrorMessage translate (constructor render) e w = Inr (constructor render, w)"
    by (simp add: sendErrorMessage_classified gate)
  moreover have "SetIsRunning True \<notin> set cs \<longrightarrow> snd (run (constructor render) cs w) = w"
    using off by (simp add: run_not_running)
  ultimately show ?thesis
    using off
    by (simp add: gate sendThinkingMessage_def sendGoalMessage_def sendLoopMessage_def
        sendManualShutdownMessage_def sendCompletedMessage_def sendAnalysisMessage_def)
qed

theorem fresh_service_delivers_nothing_witness:
  "sendThinkingMessage (constructor record_sink) [] = (constructor record_sink, []) \<and>
   snd (run (constructor record_sink)
          [SendMessage \<lparr>type = MESSAGE_TYPE_THINKING, value = []\<rparr>,
           SetIsRunning False,
           SendMessage \<lparr>type = MESSAGE_TYPE_GOAL, value = ''Plan a trip''\<rparr>] []) = []"
  using fresh_service_delivers_nothing
    [of record_sink "[]" undefined undefined undefined undefined undefined
        "[SendMessage \<lparr>type = MESSAGE_TYPE_THINKING, value = []\<rparr>,
           SetIsRunning False,
           SendMessage \<lparr>type = MESSAGE_TYPE_GOAL, value = ''Plan a trip''\<rparr>]"]
  by (simp del: run.simps)

text \<open>
  C10. \<open>setIsRunning\<close> changes the field \<open>isRunning\<close> and keeps the callback;
  \<open>sendMessage\<close> returns the service as it was, flag and callback included, and applies
  the callback to the world at most once: the recording sink's log is unchanged or
  longer by the one message.
\<close>

theorem setIsRunning_sendMessage_frame:
  "setIsRunning this running = \<lparr>isRunning = running, renderMessage = renderMessage this\<rparr> \<and>
   fst (sendMessage this message w) = this \<and>
   (snd (sendMessage this message w) = w \<or>
    snd (sendMessage this message w) = renderMessage this message w) \<and>
   (snd (sendMessage (this\<lparr>renderMessage := record_sink\<rparr>) message log) = log \<or>
    snd (sendMessage (this\<lparr>renderMessage := record_sink\<rparr>) message log) = log @ [message])"
  by (cases this) (simp add: setIsRunning_def sendMessage_def record_sink_def)

theorem setIsRunning_sendMessage_frame_witness:
  "setIsRunning \<lparr>isRunning = False, renderMessage = record_sink\<rparr> True
     = \<lparr>isRunning = True, renderMessage = record_sink\<rparr> \<and>
   fst (sendMessage \<lparr>isRunning = True, renderMessage = record_sink\<rparr>
          \<lparr>type = MESSAGE_TYPE_GOAL, value = ''g''\<rparr> [])
     = \<lparr>isRunning = True, renderMessage = record_sink\<rparr>"
  using setIsRunning_sendMessage_frame
          [of "\<lparr>isRunning = False, renderMessage = record_sink\<rparr>" True]
        setIsRunning_sendMessage_frame
          [of "\<lparr>isRunning = True, renderMessage = record_sink\<rparr>" True
              "\<lparr>type = MESSAGE_TYPE_GOAL, value = ''g''\<rparr>" "[]"]
  by simp

subsection \<open>The entry points\<close>

text \<open>
  C8. On a running service, \<open>sendGoalMessage\<close> applies the sink once, to the goal
  message whose value is the given text unchanged.
\<close>

theorem sendGoalMessage_running:
  assumes "isRunning this"
  shows "sendGoalMessage this goal w =
           (this, renderMessage this \<lparr>type = MESSAGE_TYPE_GOAL, value = goal\<rparr> w)"
  using assms by (simp add: sendGoalMessage_def sendMessage_def)

theorem sendGoalMessage_running_witness:
  "sendGoalMessage \<lparr>isRunning = True, renderMessage = record_sink\<rparr> ''Plan a trip'' []
   = (\<lparr>isRunning = True, renderMessage = record_sink\<rparr>,
      [\<lparr>type = MESSAGE_TYPE_GOAL, value = ''Plan a trip''\<rparr>])"
  using sendGoalMessage_running
    [of "\<lparr>isRunning = True, renderMessage = record_sink\<rparr>" "''Plan a trip''" "[]"]
  by (simp add: record_sink_def)

lemma sendAnalysisMessage_text_cases:
  "sendAnalysisMessage_text analysis =
     (if action analysis = Some ''search'' then
        [CHR 0xF0, CHR 0x9F, CHR 0x94, CHR 0x8D] @ '' Searching the web for ''
          @ [CHR 0x22] @ js_template (arg analysis) @ [CHR 0x22] @ ''...''
      else if action analysis = Some ''wikipedia'' then
        [CHR 0xF0, CHR 0x9F, CHR 0x8C, CHR 0x90] @ '' Searching Wikipedia for ''
          @ [CHR 0x22] @ js_template (arg analysis) @ [CHR 0x22] @ ''...''
      else if action analysis = Some ''image'' then
        [CHR 0xF0, CHR 0x9F, CHR 0x8E, CHR 0xA8] @ '' Generating an image with prompt: ''
          @ [CHR 0x22] @ js_template (arg analysis) @ [CHR 0x22] @ ''...''
      else if action analysis = Some ''code'' then
        [CHR 0xF0, CHR 0x9F, CHR 0x92, CHR 0xBB] @ '' Writing code...''
      else [CHR 0xE2, CHR 0x8F, CHR 0xB0] @ '' Generating response...'')"
  by (simp add: sendAnalysisMessage_text_def js_loose_eq_def)

text \<open>
  C3. \<open>sendAnalysisMessage\<close> hands the gate a system message whose text is: for the
  action \<open>search\<close> the web-search sentence with the argument between its quotes, for
  \<open>wikipedia\<close> the Wikipedia-search sentence with the argument, for \<open>image\<close> the
  image-generation sentence with the argument, for \<open>code\<close> the fixed sentence about
  writing code, and for any other or absent action the sentence about generating a
  response.
\<close>

theorem sendAnalysisMessage_sentence:
  "sendAnalysisMessage this analysis w =
     sendMessage this
       \<lparr>type = MESSAGE_TYPE_SYSTEM,
        value =
          (if action analysis = Some ''search'' then
             [CHR 0xF0, CHR 0x9F, CHR 0x94, CHR 0x8D] @ '' Searching the web for ''
               @ [CHR 0x22] @ js_template (arg analysis) @ [CHR 0x22] @ ''...''
           else if action analysis = Some ''wikipedia'' then
             [CHR 0xF0, CHR 0x9F, CHR 0x8C, CHR 0x90] @ '' Searching Wikipedia for ''
               @ [CHR 0x22] @ js_template (arg analysis) @ [CHR 0x22] @ ''...''
           else if action analysis = Some ''image'' then
             [CHR 0xF0, CHR 0x9F, CHR 0x8E, CHR 0xA8]
               @ '' Generating an image with prompt: ''
               @ [CHR 0x22] @ js_template (arg analysis) @ [CHR 0x22] @ ''...''
           else if action analysis = Some ''code'' then
             [CHR 0xF0, CHR 0x9F, CHR 0x92, CHR 0xBB] @ '' Writing code...''
           else [CHR 0xE2, CHR 0x8F, CHR 0xB0] @ '' Generating response...'')\<rparr> w"
  unfolding sendAnalysisMessage_def sendAnalysisMessage_text_cases ..

theorem sendAnalysisMessage_sentence_witness:
  "snd (sendAnalysisMessage \<lparr>isRunning = True, renderMessage = record_sink\<rparr>
          \<lparr>action = Some ''search'', arg = Some ''cats''\<rparr> [])
     = [\<lparr>type = MESSAGE_TYPE_SYSTEM,
         value = [CHR 0xF0, CHR 0x9F, CHR 0x94, CHR 0x8D]
                   @ '' Searching the web for ''
                   @ [CHR 0x22] @ ''cats'' @ [CHR 0x22] @ ''...''\<rparr>] \<and>
   snd (sendAnalysisMessage \<lparr>isRunning = True, renderMessage = record_sink\<rparr>
          \<lparr>action = Some ''wikipedia'', arg = Some ''Rome''\<rparr> [])
     = [\<lparr>type = MESSAGE_TYPE_SYSTEM,
         value = [CHR 0xF0, CHR 0x9F, CHR 0x8C, CHR 0x90]
                   @ '' Searching Wikipedia for ''
                   @ [CHR 0x22] @ ''Rome'' @ [CHR 0x22] @ ''...''\<rparr>] \<and>
   snd (sendAnalysisMessage \<lparr>isRunning = True, renderMessage = record_sink\<rparr>
          \<lparr>action = Some ''image'', arg = Some ''a dog''\<rparr> [])
     = [\<lparr>type = MESSAGE_TYPE_SYSTEM,
         value = [CHR 0xF0, CHR 0x9F, CHR 0x8E, CHR 0xA8]
                   @ '' Generating an image with prompt: ''
                   @ [CHR 0x22] @ ''a dog'' @ [CHR 0x22] @ ''...''\<rparr>] \<and>
   snd (sendAnalysisMessage \<lparr>isRunning = True, renderMessage = record_sink\<rparr>
          \<lparr>action = Some ''code'', arg = Some ''x''\<rparr> [])
     = [\<lparr>type = MESSAGE_TYPE_SYSTEM,
         value = [CHR 0xF0, CHR 0x9F, CHR 0x92, CHR 0xBB] @ '' Writing code...''\<rparr>] \<and>
   snd (sendAnalysisMessage \<lparr>isRunning = True, renderMessage = record_sink\<rparr>
          \<lparr>action = Some ''reason'', arg = Some ''x''\<rparr> [])
     = [\<lparr>type = MESSAGE_TYPE_SYSTEM,
         value = [CHR 0xE2, CHR 0x8F, CHR 0xB0] @ '' Generating response...''\<rparr>] \<and>
   snd (sendAnalysisMessage \<lparr>isRunning = True, renderMessage = record_sink\<rparr>
          \<lparr>action = None, arg = None\<rparr> [])
     = [\<lparr>type = MESSAGE_TYPE_SYSTEM,
         value = [CHR 0xE2, CHR 0x8F, CHR 0xB0] @ '' Generating response...''\<rparr>]"
  by (simp add: sendAnalysisMessage_sentence sendMessage_def record_sink_def)






end
